theory Spec2Isabelle
  imports Complex_Main "HOL-Library.Word"
begin

section \<open>Conventions\<close>

text \<open>
  A \<^verbatim>\<open>Uint8Array\<close> is a list of \<^typ>\<open>8 word\<close>. In the spectrum source a JavaScript
  number is a \<open>double\<close> (a finite value, an infinity or \<^verbatim>\<open>NaN\<close>), and the rounding
  operations on doubles (\<^verbatim>\<open>+\<close>, \<^verbatim>\<open>*\<close>, \<^verbatim>\<open>Math.sin\<close>) are parameters of the model:
  what is proved holds for every choice of them. In the bar loop, whose inputs are bytes,
  numbers are real numbers. In the token lifecycle, millisecond timestamps and second
  counts are whole numbers of a size a double holds exactly (\<^typ>\<open>int\<close>, or
  \<^verbatim>\<open>NaN\<close>); JSON numbers with a fraction are not modelled. \<^const>\<open>None\<close> is
  \<^verbatim>\<open>undefined\<close>, a field that is not there.
\<close>

section \<open>Visualizer: the spectrum source (synthetic branch of \<^verbatim>\<open>useFrame\<close>)\<close>

datatype double = Fin real | PosInf | NegInf | NotANumber

text \<open>
  The operations whose results are rounded, or left to the implementation: \<^verbatim>\<open>a + b\<close>,
  \<^verbatim>\<open>a * b\<close> and \<^verbatim>\<open>Math.sin(a)\<close>.
\<close>

record arithmetic =
  plus_op :: "double \<Rightarrow> double \<Rightarrow> double"
  times_op :: "double \<Rightarrow> double \<Rightarrow> double"
  sin_op :: "double \<Rightarrow> double"

text \<open>
  \<^verbatim>\<open>Math.min\<close> and \<^verbatim>\<open>Math.max\<close> of two numbers: \<^verbatim>\<open>NaN\<close> if either is, else the
  smaller (larger) one; none of it rounds.
\<close>

fun js_min :: "double \<Rightarrow> double \<Rightarrow> double" where
  "js_min NotANumber b = NotANumber"
| "js_min a NotANumber = NotANumber"
| "js_min NegInf b = NegInf"
| "js_min a NegInf = NegInf"
| "js_min PosInf b = b"
| "js_min a PosInf = a"
| "js_min (Fin a) (Fin b) = Fin (min a b)"

fun js_max :: "double \<Rightarrow> double \<Rightarrow> double" where
  "js_max NotANumber b = NotANumber"
| "js_max a NotANumber = NotANumber"
| "js_max PosInf b = PosInf"
| "js_max a PosInf = PosInf"
| "js_max NegInf b = b"
| "js_max a NegInf = a"
| "js_max (Fin a) (Fin b) = Fin (max a b)"

text \<open>
  Storing a number into a \<^verbatim>\<open>Uint8Array\<close>: \<^verbatim>\<open>NaN\<close> and the infinities become 0, a
  finite value is truncated towards zero and reduced modulo 256.
\<close>

fun to_uint8 :: "double \<Rightarrow> 8 word" where
  "to_uint8 (Fin v) = word_of_int (if 0 \<le> v then \<lfloor>v\<rfloor> else \<lceil>v\<rceil>)"
| "to_uint8 PosInf = 0"
| "to_uint8 NegInf = 0"
| "to_uint8 NotANumber = 0"

text \<open>
  The literals \<^verbatim>\<open>0.1\<close> and \<^verbatim>\<open>0.05\<close> are the doubles nearest to them; the other
  literals of the loop (2, 30, 0.5, 50, 20, 80, 255, 0) are doubles themselves.
\<close>

definition literal_0_1 :: double where
  "literal_0_1 = Fin (3602879701896397 / 2 ^ 55)"

definition literal_0_05 :: double where
  "literal_0_05 = Fin (3602879701896397 / 2 ^ 56)"

text \<open>
  The sum \<^verbatim>\<open>80 + wave1 + wave2 + noise\<close> of one iteration, added from the left; \<open>rnd\<close>
  is the value \<^verbatim>\<open>Math.random()\<close> returned in this iteration, \<open>time\<close> the component's
  \<^verbatim>\<open>time\<close> state.
\<close>

definition synthetic_sum :: "arithmetic \<Rightarrow> double \<Rightarrow> nat \<Rightarrow> double \<Rightarrow> double" where
  "synthetic_sum ops time i rnd =
     (let wave1 = times_op ops
                    (sin_op ops (plus_op ops (times_op ops time (Fin 2))
                                             (times_op ops (Fin (real i)) literal_0_1)))
                    (Fin 30);
          wave2 = times_op ops
                    (sin_op ops (plus_op ops (times_op ops time (Fin 0.5))
                                             (times_op ops (Fin (real i)) literal_0_05)))
                    (Fin 50);
          noise = times_op ops rnd (Fin 20)
      in plus_op ops (plus_op ops (plus_op ops (Fin 80) wave1) wave2) noise)"

text \<open>
  The right-hand side of the assignment
  \<^verbatim>\<open>dataArray[i] = Math.max(0, Math.min(255, 80 + wave1 + wave2 + noise))\<close>, before it is
  stored.
\<close>

definition synthetic_value :: "arithmetic \<Rightarrow> double \<Rightarrow> nat \<Rightarrow> double \<Rightarrow> double" where
  "synthetic_value ops time i rnd = js_max (Fin 0) (js_min (Fin 255) (synthetic_sum ops time i rnd))"

text \<open>
  The loop \<^verbatim>\<open>for (let i = 0; i < dataArray.length; i++)\<close>; \<open>random i\<close> is the draw
  of iteration \<open>i\<close>.
\<close>

function fill_synthetic ::
  "arithmetic \<Rightarrow> double \<Rightarrow> (nat \<Rightarrow> double) \<Rightarrow> nat \<Rightarrow> 8 word list \<Rightarrow> 8 word list" where
  "fill_synthetic ops time random i dataArray =
     (if i < length dataArray
      then fill_synthetic ops time random (Suc i)
             (dataArray[i := to_uint8 (synthetic_value ops time i (random i))])
      else dataArray)"
  by pat_completeness auto
termination
  by (relation "measure (\<lambda>(ops, time, random, i, dataArray). length dataArray - i)") auto

declare fill_synthetic.simps [simp del]

text \<open>\<^verbatim>\<open>dataArray = new Uint8Array(128)\<close> followed by the loop.\<close>

definition synthetic_frame :: "arithmetic \<Rightarrow> double \<Rightarrow> (nat \<Rightarrow> double) \<Rightarrow> 8 word list" where
  "synthetic_frame ops time random = fill_synthetic ops time random 0 (replicate 128 0)"

text \<open>
  For the examples: a source of draws that returns the same value every time, and
  arithmetic without rounding on finite values. Where the exact result of an operation is
  a double, as for the whole numbers and the eighths of the examples, it is the result of
  the double operation.
\<close>

definition constant_random :: "double \<Rightarrow> nat \<Rightarrow> double" where
  "constant_random c i = c"

fun exact_plus :: "double \<Rightarrow> double \<Rightarrow> double" where
  "exact_plus (Fin a) (Fin b) = Fin (a + b)"
| "exact_plus a b = NotANumber"

fun exact_times :: "double \<Rightarrow> double \<Rightarrow> double" where
  "exact_times (Fin a) (Fin b) = Fin (a * b)"
| "exact_times a b = NotANumber"

fun exact_sin :: "double \<Rightarrow> double" where
  "exact_sin (Fin a) = Fin (sin a)"
| "exact_sin a = NotANumber"

definition exact_arithmetic :: arithmetic where
  "exact_arithmetic = \<lparr> plus_op = exact_plus, times_op = exact_times, sin_op = exact_sin \<rparr>"

section \<open>Visualizer: the bar loop of \<^verbatim>\<open>useFrame\<close>\<close>

text \<open>
  A bar mesh: the components of \<^verbatim>\<open>mesh.scale\<close>, \<^verbatim>\<open>mesh.position\<close> and
  \<^verbatim>\<open>mesh.rotation\<close>, and the colour of its material, kept as the hue, saturation and
  lightness last given to it (\<^const>\<open>None\<close> when the material has no colour).
\<close>

record mesh =
  scale_x :: real
  scale_y :: real
  scale_z :: real
  position_x :: real
  position_y :: real
  position_z :: real
  rotation_x :: real
  rotation_y :: real
  rotation_z :: real
  color :: "(real \<times> real \<times> real) option"

text \<open>Indexing a typed array: \<^verbatim>\<open>undefined\<close> outside its bounds.\<close>

definition js_index :: "'a list \<Rightarrow> nat \<Rightarrow> 'a option" where
  "js_index xs i = (if i < length xs then Some (xs ! i) else None)"

text \<open>The body of the guarded block, for a mesh and the sample read for it.\<close>

definition update_mesh :: "nat \<Rightarrow> nat \<Rightarrow> 8 word \<Rightarrow> mesh \<Rightarrow> mesh" where
  "update_mesh len index sample m =
     (let frequency = real (unat sample) / 255;
          hue = (real index / real len) * 360;
          saturation = 50 + frequency * 50;
          lightness = 30 + frequency * 40;
          angle = (real index / real len) * pi * 2;
          radius = 2 + frequency
      in m\<lparr> scale_y := 0.1 + frequency * 3,
            scale_x := 0.5 + frequency * 0.5,
            scale_z := 0.5 + frequency * 0.5,
            color := (case color m of
                        None \<Rightarrow> None
                      | Some c \<Rightarrow> Some (hue / 360, saturation / 100, lightness / 100)),
            position_x := cos angle * radius,
            position_z := sin angle * radius,
            position_y := frequency * 2 - 1,
            rotation_x := rotation_x m + frequency * 0.1,
            rotation_z := rotation_z m + frequency * 0.05 \<rparr>)"

text \<open>
  The callback of \<^verbatim>\<open>meshRefs.current.forEach\<close>: an empty slot (\<^const>\<open>None\<close>) is
  skipped, and so is a mesh whose index has no sample.
\<close>

definition bar_callback :: "8 word list \<Rightarrow> nat \<Rightarrow> mesh option \<Rightarrow> mesh option" where
  "bar_callback dataArray index slot =
     (case slot of
        None \<Rightarrow> None
      | Some m \<Rightarrow>
          (case js_index dataArray index of
             None \<Rightarrow> Some m
           | Some sample \<Rightarrow> Some (update_mesh (length dataArray) index sample m)))"

fun forEach_from :: "8 word list \<Rightarrow> nat \<Rightarrow> mesh option list \<Rightarrow> mesh option list" where
  "forEach_from dataArray index [] = []"
| "forEach_from dataArray index (slot # slots) =
     bar_callback dataArray index slot # forEach_from dataArray (Suc index) slots"

definition update_meshes :: "8 word list \<Rightarrow> mesh option list \<Rightarrow> mesh option list" where
  "update_meshes dataArray meshRefs = forEach_from dataArray 0 meshRefs"

text \<open>
  \<^verbatim>\<open>createFrequencyBars\<close>: 32 meshes at the origin, with the defaults of a new mesh (unit
  scale, no rotation) and a coloured material (hot pink, as hue, saturation, lightness).
\<close>

definition new_bar :: mesh where
  "new_bar = \<lparr> scale_x = 1, scale_y = 1, scale_z = 1,
               position_x = 0, position_y = 0, position_z = 0,
               rotation_x = 0, rotation_y = 0, rotation_z = 0,
               color = Some (11 / 12, 1, 12 / 17) \<rparr>"

definition createFrequencyBars :: "mesh option list" where
  "createFrequencyBars = replicate 32 (Some new_bar)"

section \<open>Session and token lifecycle (the \<^verbatim>\<open>jwt\<close> callback)\<close>

subsection \<open>JavaScript values\<close>

text \<open>
  A number is an integer or \<^verbatim>\<open>NaN\<close>; a number that may be \<^verbatim>\<open>undefined\<close> is a
  \<open>jsnum option\<close>. The helpers below are the language's rules for truthiness,
  \<^verbatim>\<open>ToNumber\<close>, \<^verbatim>\<open>+\<close>, \<^verbatim>\<open>*\<close>, \<^verbatim>\<open><\<close> and \<^verbatim>\<open>||\<close> on these values.
\<close>

datatype jsnum = Num int | NaN

fun truthy_num :: "jsnum option \<Rightarrow> bool" where
  "truthy_num (Some (Num n)) = (n \<noteq> 0)"
| "truthy_num (Some NaN) = False"
| "truthy_num None = False"

fun truthy_str :: "string option \<Rightarrow> bool" where
  "truthy_str (Some s) = (s \<noteq> [])"
| "truthy_str None = False"

fun to_number :: "jsnum option \<Rightarrow> jsnum" where
  "to_number (Some v) = v"
| "to_number None = NaN"

fun js_add :: "jsnum \<Rightarrow> jsnum \<Rightarrow> jsnum" where
  "js_add (Num a) (Num b) = Num (a + b)"
| "js_add _ _ = NaN"

fun js_mul :: "jsnum \<Rightarrow> jsnum \<Rightarrow> jsnum" where
  "js_mul (Num a) (Num b) = Num (a * b)"
| "js_mul _ _ = NaN"

fun js_less :: "jsnum \<Rightarrow> jsnum \<Rightarrow> bool" where
  "js_less (Num a) (Num b) = (a < b)"
| "js_less _ _ = False"

definition js_or :: "jsnum option \<Rightarrow> jsnum \<Rightarrow> jsnum" where
  "js_or v d = (if truthy_num v then to_number v else d)"

subsection \<open>JSON values\<close>

text \<open>
  A JSON value that is not an array or an object: \<^verbatim>\<open>null\<close>, a boolean, a number (a
  whole number) or a string. A value that may be \<^verbatim>\<open>undefined\<close> is a \<open>json option\<close>.
\<close>

datatype json = JNull | JBool bool | JNumber int | JString string

text \<open>
  A parsed body, as \<^verbatim>\<open>JSON.parse\<close> gives it: such a value, an array (nothing is read
  from it), or an object with its members in the order of the text. A member of an object
  that is itself an array or an object is not modelled.
\<close>

datatype json_body = JScalar json | JArray | JObject "(string \<times> json) list"

fun truthy_json :: "json option \<Rightarrow> bool" where
  "truthy_json None = False"
| "truthy_json (Some JNull) = False"
| "truthy_json (Some (JBool b)) = b"
| "truthy_json (Some (JNumber n)) = (n \<noteq> 0)"
| "truthy_json (Some (JString s)) = (s \<noteq> [])"

text \<open>\<^verbatim>\<open>a ?? b\<close>: \<open>b\<close> when \<open>a\<close> is \<^verbatim>\<open>undefined\<close> or \<^verbatim>\<open>null\<close>, else \<open>a\<close>.\<close>

fun nullish :: "json option \<Rightarrow> bool" where
  "nullish None = True"
| "nullish (Some JNull) = True"
| "nullish (Some v) = False"

definition js_coalesce :: "json option \<Rightarrow> json option \<Rightarrow> json option" where
  "js_coalesce a b = (if nullish a then b else a)"

text \<open>
  Reading the property \<open>key\<close> of a parsed body other than \<^verbatim>\<open>null\<close>: an object gives
  the member of that name (the last one, if the text repeated the name) or
  \<^verbatim>\<open>undefined\<close>; a number, a string, a boolean and an array have no property of the
  names read here. (Reading a property of \<^verbatim>\<open>null\<close> throws; the caller tests for it.)
\<close>

fun property :: "json_body \<Rightarrow> string \<Rightarrow> json option" where
  "property (JObject members) key = map_of (rev members) key"
| "property (JScalar v) key = None"
| "property JArray key = None"

text \<open>
  \<^verbatim>\<open>ToNumber\<close> of such a value: \<^verbatim>\<open>undefined\<close> is \<^verbatim>\<open>NaN\<close>, \<^verbatim>\<open>null\<close> is 0,
  \<^verbatim>\<open>false\<close> and \<^verbatim>\<open>true\<close> are 0 and 1. The number a string converts to is found by
  reading it as numeric text, which is not modelled: it is the parameter \<open>coerce\<close>.
\<close>

fun json_to_number :: "(string \<Rightarrow> jsnum) \<Rightarrow> json option \<Rightarrow> jsnum" where
  "json_to_number coerce None = NaN"
| "json_to_number coerce (Some JNull) = Num 0"
| "json_to_number coerce (Some (JBool b)) = Num (if b then 1 else 0)"
| "json_to_number coerce (Some (JNumber n)) = Num n"
| "json_to_number coerce (Some (JString s)) = coerce s"

subsection \<open>Tokens, the provider's answers, the token endpoint\<close>

text \<open>
  The token of the \<^verbatim>\<open>jwt\<close> callback, with the four fields the callback reads and writes;
  the record's extension carries whatever else the token holds, which the object spread
  \<^verbatim>\<open>...token\<close> keeps. The access token and the refresh token are the values the
  provider sent; the expiry is a number, as every assignment to it is the result of an
  addition.
\<close>

record jwt =
  accessToken :: "json option"
  accessTokenExpires :: "jsnum option"
  refreshToken :: "json option"
  error :: "string option"

text \<open>
  The \<^verbatim>\<open>account\<close> of a sign-in, with the three fields the callback reads;
  \<^verbatim>\<open>expires_in\<close> is read \<^verbatim>\<open>as number\<close>.
\<close>

record token_set =
  access_token :: "json option"
  expires_in :: "jsnum option"
  refresh_token :: "json option"

text \<open>
  The outcome of \<^verbatim>\<open>fetch\<close> followed by \<^verbatim>\<open>response.json()\<close>: \<^verbatim>\<open>fetch\<close> throws on a
  network error; otherwise there is a status and a body, \<^const>\<open>None\<close> when the body is
  not JSON (parsing throws), else the parsed value.
\<close>

record http_response =
  status :: nat
  body :: "json_body option"

datatype fetch_result = NetworkError | Response http_response

text \<open>\<^verbatim>\<open>response.ok\<close>: the status is in the range 200 to 299.\<close>

definition response_ok :: "http_response \<Rightarrow> bool" where
  "response_ok response = (200 \<le> status response \<and> status response \<le> 299)"

text \<open>
  The form fields of the POST to the token endpoint: the grant type and the value given
  for \<^verbatim>\<open>refresh_token\<close> (which \<^verbatim>\<open>URLSearchParams\<close> turns into text).
\<close>

record refresh_request =
  grant_type :: string
  sent_refresh_token :: "json option"

definition request_for :: "'a jwt_scheme \<Rightarrow> refresh_request" where
  "request_for token =
     \<lparr> grant_type = ''refresh_token'', sent_refresh_token = refreshToken token \<rparr>"

type_synonym token_endpoint = "refresh_request \<Rightarrow> fetch_result"

subsection \<open>\<^verbatim>\<open>refreshAccessToken\<close>\<close>

text \<open>What the \<^verbatim>\<open>try\<close> block can throw.\<close>

datatype thrown = FetchError | SyntaxError | ThrownValue json_body | TypeError

text \<open>
  The \<^verbatim>\<open>try\<close> block: the request, the parse, the check of \<^verbatim>\<open>response.ok\<close> (the parsed
  body is thrown when it fails), and the refreshed token. \<open>later\<close> is \<^verbatim>\<open>Date.now()\<close> read
  after the answer arrived. Reading \<^verbatim>\<open>refreshedTokens.access_token\<close> throws a
  \<^verbatim>\<open>TypeError\<close> when the body is \<^verbatim>\<open>null\<close>.
\<close>

definition try_refresh ::
  "(string \<Rightarrow> jsnum) \<Rightarrow> token_endpoint \<Rightarrow> nat \<Rightarrow> 'a jwt_scheme \<Rightarrow> thrown + 'a jwt_scheme" where
  "try_refresh coerce fetch later token =
     (case fetch (request_for token) of
        NetworkError \<Rightarrow> Inl FetchError
      | Response response \<Rightarrow>
          (case body response of
             None \<Rightarrow> Inl SyntaxError
           | Some refreshedTokens \<Rightarrow>
               if \<not> response_ok response then Inl (ThrownValue refreshedTokens)
               else if refreshedTokens = JScalar JNull then Inl TypeError
               else Inr (token\<lparr> accessToken := property refreshedTokens ''access_token'',
                                accessTokenExpires :=
                                  Some (js_add (Num (int later))
                                          (js_mul (json_to_number coerce
                                                     (property refreshedTokens ''expires_in''))
                                                  (Num 1000))),
                                refreshToken :=
                                  js_coalesce (property refreshedTokens ''refresh_token'')
                                              (refreshToken token) \<rparr>)))"

text \<open>
  The function with its \<^verbatim>\<open>catch\<close>: the new token, and the requests sent to the token
  endpoint.
\<close>

definition refreshAccessToken ::
  "(string \<Rightarrow> jsnum) \<Rightarrow> token_endpoint \<Rightarrow> nat \<Rightarrow> 'a jwt_scheme
     \<Rightarrow> 'a jwt_scheme \<times> refresh_request list" where
  "refreshAccessToken coerce fetch later token =
     (case try_refresh coerce fetch later token of
        Inr refreshed \<Rightarrow> (refreshed, [request_for token])
      | Inl thrown \<Rightarrow> (token\<lparr> error := Some ''RefreshAccessTokenError'' \<rparr>, [request_for token]))"

subsection \<open>The \<^verbatim>\<open>jwt\<close> callback\<close>

text \<open>
  \<open>now\<close> is the callback's own reading of \<^verbatim>\<open>Date.now()\<close> (milliseconds since the epoch,
  a natural number), \<open>account\<close> is present on a sign-in only. The result is the token
  returned and the requests sent to the token endpoint.
\<close>

definition jwt_callback ::
  "(string \<Rightarrow> jsnum) \<Rightarrow> token_endpoint \<Rightarrow> nat \<Rightarrow> nat \<Rightarrow> 'a jwt_scheme \<Rightarrow> token_set option
     \<Rightarrow> 'a jwt_scheme \<times> refresh_request list" where
  "jwt_callback coerce fetch now later token account =
     (case account of
        Some acc \<Rightarrow>
          (token\<lparr> accessToken := access_token acc,
                   accessTokenExpires :=
                     Some (js_add (Num (int now))
                             (js_mul (js_or (expires_in acc) (Num 3600)) (Num 1000))),
                   refreshToken := refresh_token acc,
                   error := None \<rparr>, [])
      | None \<Rightarrow>
          if truthy_num (accessTokenExpires token)
             \<and> js_less (Num (int now)) (to_number (accessTokenExpires token))
          then (token, [])
          else if \<not> truthy_json (refreshToken token)
          then (token\<lparr> error := Some ''RefreshAccessTokenError'' \<rparr>, [])
          else refreshAccessToken coerce fetch later token)"

text \<open>
  A refresh exchange succeeds when the endpoint answers with a status in the 2xx range
  and a body that is JSON and not \<^verbatim>\<open>null\<close>; it fails on a network error, on any other
  status, and on a body that is not JSON or is \<^verbatim>\<open>null\<close>.
\<close>

definition exchange_succeeds :: "fetch_result \<Rightarrow> bool" where
  "exchange_succeeds result =
     (case result of
        NetworkError \<Rightarrow> False
      | Response response \<Rightarrow>
          response_ok response \<and> body response \<noteq> None
            \<and> body response \<noteq> Some (JScalar JNull))"

text \<open>Tokens, accounts, answers and endpoints for the examples.\<close>

definition session_token :: jwt where
  "session_token = \<lparr> accessToken = Some (JString ''old-access''),
                      accessTokenExpires = Some (Num 1000),
                      refreshToken = Some (JString ''refresh-1''), error = None \<rparr>"

definition failed_token :: jwt where
  "failed_token = \<lparr> accessToken = Some (JString ''old-access''),
                     accessTokenExpires = Some (Num 1000),
                     refreshToken = Some (JString ''refresh-1''),
                     error = Some ''RefreshAccessTokenError'' \<rparr>"

definition fresh_tokens :: token_set where
  "fresh_tokens = \<lparr> access_token = Some (JString ''new-access''), expires_in = Some (Num 3600),
                     refresh_token = None \<rparr>"

definition zero_lifetime_account :: token_set where
  "zero_lifetime_account = \<lparr> access_token = Some (JString ''first-access''),
                              expires_in = Some (Num 0),
                              refresh_token = Some (JString ''refresh-1'') \<rparr>"

definition fresh_answer :: json_body where
  "fresh_answer = JObject [(''access_token'', JString ''new-access''), (''expires_in'', JNumber 3600)]"

definition endpoint_ok :: token_endpoint where
  "endpoint_ok request = Response \<lparr> status = 200, body = Some fresh_answer \<rparr>"


definition endpoint_down :: token_endpoint where
  "endpoint_down request = NetworkError"

text \<open>A conversion for the examples, none of which converts a string.\<close>

definition no_coercion :: "string \<Rightarrow> jsnum" where
  "no_coercion s = NaN"

section \<open>Playback controller (the dashboard's \<^verbatim>\<open>playTrack\<close> and \<^verbatim>\<open>togglePlayPause\<close>)\<close>

text \<open>
  A track, with the fields the controller reads; the record's extension stands for the
  rest (artists, album, links). A \<^verbatim>\<open>preview_url\<close> of \<^verbatim>\<open>null\<close> is \<^const>\<open>None\<close>.
\<close>

record track =
  track_id :: string
  track_name :: string
  preview_url :: "string option"

text \<open>
  The audio element as the controller sees it: its \<^verbatim>\<open>src\<close> attribute and the calls of
  \<^verbatim>\<open>play()\<close> and \<^verbatim>\<open>pause()\<close> made on it, oldest first. What the browser does with
  them is not modelled, but for the promise \<^verbatim>\<open>play()\<close> returns.
\<close>

datatype audio_call = Play | Pause

record audio_element =
  src :: string
  calls :: "audio_call list"

datatype play_outcome = Started | Rejected

text \<open>
  The state of the component: \<^verbatim>\<open>currentTrack\<close>, \<^verbatim>\<open>isPlaying\<close>, and \<^verbatim>\<open>audioRef.current\<close>
  (\<^const>\<open>None\<close> while no audio element is mounted).
\<close>

record dashboard =
  currentTrack :: "track option"
  isPlaying :: bool
  audioRef :: "audio_element option"

text \<open>
  The first branch of \<^verbatim>\<open>playTrack\<close>: the preview becomes the source and \<^verbatim>\<open>play()\<close> is
  called. \<^verbatim>\<open>setIsPlaying(true)\<close> runs at once and the handler of a rejected \<^verbatim>\<open>play()\<close>
  promise runs \<^verbatim>\<open>setIsPlaying(false)\<close> after it, so \<^verbatim>\<open>isPlaying\<close> ends as the outcome
  of the promise. The branch is entered with a preview and an audio element only.
\<close>

definition start_preview :: "play_outcome \<Rightarrow> track \<Rightarrow> dashboard \<Rightarrow> dashboard" where
  "start_preview outcome track s =
     (case (preview_url track, audioRef s) of
        (Some url, Some audio) \<Rightarrow>
          s\<lparr> audioRef := Some (audio\<lparr> src := url, calls := calls audio @ [Play] \<rparr>),
              isPlaying := (outcome = Started) \<rparr>
      | _ \<Rightarrow> s)"

text \<open>The second branch: no playback; an audio element, if there is one, is paused and
  its source cleared.\<close>

definition stop_audio :: "dashboard \<Rightarrow> dashboard" where
  "stop_audio s =
     (let s1 = s\<lparr> isPlaying := False \<rparr> in
      case audioRef s1 of
        None \<Rightarrow> s1
      | Some audio \<Rightarrow>
          s1\<lparr> audioRef := Some (audio\<lparr> calls := calls audio @ [Pause], src := [] \<rparr>) \<rparr>)"

definition playTrack :: "play_outcome \<Rightarrow> track \<Rightarrow> dashboard \<Rightarrow> dashboard" where
  "playTrack outcome track s =
     (let s1 = s\<lparr> currentTrack := Some track \<rparr> in
      if truthy_str (preview_url track) \<and> audioRef s1 \<noteq> None
      then start_preview outcome track s1
      else stop_audio s1)"

definition togglePlayPause :: "dashboard \<Rightarrow> dashboard" where
  "togglePlayPause s =
     (case audioRef s of
        None \<Rightarrow> s
      | Some audio \<Rightarrow>
          s\<lparr> audioRef := Some (if isPlaying s
                                 then audio\<lparr> calls := calls audio @ [Pause] \<rparr>
                                 else audio\<lparr> calls := calls audio @ [Play] \<rparr>),
              isPlaying := \<not> isPlaying s \<rparr>)"

text \<open>The current track has a preview: \<^verbatim>\<open>currentTrack.preview_url\<close> is truthy.\<close>

definition hasPreview :: "dashboard \<Rightarrow> bool" where
  "hasPreview s = (case currentTrack s of None \<Rightarrow> False | Some t \<Rightarrow> truthy_str (preview_url t))"

text \<open>The dashboard once mounted, and two tracks for the examples.\<close>

definition mounted_dashboard :: dashboard where
  "mounted_dashboard =
     \<lparr> currentTrack = None, isPlaying = False, audioRef = Some \<lparr> src = [], calls = [] \<rparr> \<rparr>"

definition preview_track :: track where
  "preview_track = \<lparr> track_id = ''t1'', track_name = ''With preview'',
                      preview_url = Some ''https://x/preview.mp3'' \<rparr>"

definition silent_track :: track where
  "silent_track = \<lparr> track_id = ''t2'', track_name = ''No preview'', preview_url = None \<rparr>"

section \<open>Properties of the spectrum source\<close>

lemma length_fill_synthetic:
  "length (fill_synthetic ops time random i dataArray) = length dataArray"
proof (induction ops time random i dataArray rule: fill_synthetic.induct)
  case (1 ops time random i dataArray)
  show ?case
  proof (cases "i < length dataArray")
    case True
    with 1 show ?thesis by (subst fill_synthetic.simps) simp
  next
    case False
    then show ?thesis by (subst fill_synthetic.simps) simp
  qed
qed

lemma nth_fill_synthetic:
  "j < length dataArray \<Longrightarrow>
   fill_synthetic ops time random i dataArray ! j =
     (if i \<le> j then to_uint8 (synthetic_value ops time j (random j)) else dataArray ! j)"
proof (induction ops time random i dataArray rule: fill_synthetic.induct)
  case (1 ops time random i dataArray)
  show ?case
  proof (cases "i < length dataArray")
    case True
    with 1 show ?thesis
      by (subst fill_synthetic.simps) (auto simp: nth_list_update not_less_eq_eq)
  next
    case False
    with 1 show ?thesis by (subst fill_synthetic.simps) simp
  qed
qed

lemma length_synthetic_frame: "length (synthetic_frame ops time random) = 128"
  by (simp add: synthetic_frame_def length_fill_synthetic)

lemma nth_synthetic_frame:
  "i < 128 \<Longrightarrow>
   synthetic_frame ops time random ! i = to_uint8 (synthetic_value ops time i (random i))"
  by (simp add: synthetic_frame_def nth_fill_synthetic)

text \<open>A finite value between 0 and 255 is stored as its integer part.\<close>

lemma uint_to_uint8:
  assumes "0 \<le> v" and "v \<le> 255"
  shows "uint (to_uint8 (Fin v)) = \<lfloor>v\<rfloor>"
proof -
  have lo: "0 \<le> \<lfloor>v\<rfloor>" using assms(1) by simp
  have hi: "\<lfloor>v\<rfloor> < 256" using assms(2) by (simp add: floor_less_iff)
  have "uint (word_of_int \<lfloor>v\<rfloor> :: 8 word) = \<lfloor>v\<rfloor>"
    using lo hi by (simp add: uint_word_of_int)
  then show ?thesis using assms(1) by simp
qed

lemma clamp_finite:
  "js_max (Fin 0) (js_min (Fin 255) (Fin x)) = Fin (max 0 (min 255 x))"
  by simp

lemma clamp_not_finite:
  "to_uint8 (js_max (Fin 0) (js_min (Fin 255) PosInf)) = 255"
  "to_uint8 (js_max (Fin 0) (js_min (Fin 255) NegInf)) = 0"
  "to_uint8 (js_max (Fin 0) (js_min (Fin 255) NotANumber)) = 0"
  by simp_all

lemma byte_le_255:
  fixes sample :: "8 word"
  shows "unat sample \<le> 255"
proof -
  have "unat sample < 2 ^ LENGTH(8)" by (rule unsigned_less)
  then show ?thesis by simp
qed

text \<open>
  Without rounding, and for a finite time and draw, the sum is the formula over the real
  numbers (with the doubles that the literals \<^verbatim>\<open>0.1\<close> and \<^verbatim>\<open>0.05\<close> denote).
\<close>

lemma synthetic_sum_exact:
  "synthetic_sum exact_arithmetic (Fin t) i (Fin r) =
     Fin (80 + sin (t * 2 + real i * (3602879701896397 / 2 ^ 55)) * 30
             + sin (t * 0.5 + real i * (3602879701896397 / 2 ^ 56)) * 50
             + r * 20)"
  by (simp add: synthetic_sum_def exact_arithmetic_def literal_0_1_def literal_0_05_def)

text \<open>
  Claim C3, as stated: for every elapsed time \<open>t \<ge> 0\<close> and every jitter in \<open>[0, 20)\<close>,
  sample \<open>i\<close> of the synthetic frame equals
  \<open>clamp(0, 255, 80 + 30 sin(2t + 0.1 i) + 50 sin(0.5 t + 0.05 i) + jitter)\<close>.
  It fails: the array stores integers. At \<open>t = 0\<close>, \<open>i = 0\<close> and
  \<^verbatim>\<open>Math.random() = 1/8\<close> (jitter \<open>2.5\<close>) every value of the computation is a whole number
  or a multiple of \<open>1/8\<close>, and nothing is rounded; the clamped value is \<open>82.5\<close> and the
  stored sample is \<open>82\<close>.
\<close>

theorem synthetic_sample_not_clamp_value:
  "real (unat (synthetic_frame exact_arithmetic (Fin 0) (constant_random (Fin (1/8))) ! 0)) \<noteq>
     max 0 (min 255 (80 + 30 * sin (2 * 0 + 0.1 * real 0)
                        + 50 * sin (0.5 * 0 + 0.05 * real 0) + 20 * (1/8)))"
proof -
  have sv: "synthetic_value exact_arithmetic (Fin 0) 0 (Fin (1/8)) = Fin (165 / 2)"
    by (simp add: synthetic_value_def synthetic_sum_def exact_arithmetic_def
          literal_0_1_def literal_0_05_def)
  have st: "to_uint8 (Fin (165 / 2)) = 82"
    by simp
  have "synthetic_frame exact_arithmetic (Fin 0) (constant_random (Fin (1/8))) ! 0
          = to_uint8 (synthetic_value exact_arithmetic (Fin 0) 0 (Fin (1/8)))"
    by (simp add: nth_synthetic_frame constant_random_def)
  then have "synthetic_frame exact_arithmetic (Fin 0) (constant_random (Fin (1/8))) ! 0 = 82"
    by (simp only: sv st)
  then show ?thesis
    by simp
qed

text \<open>
  Claim C3, amended: for every elapsed time and all draws of \<^verbatim>\<open>Math.random()\<close> (so for
  every \<open>t \<ge> 0\<close> and every jitter in \<open>[0, 20)\<close>), and whatever the rounding of the double
  operations, the synthetic frame has 128 samples, each an integer in \<open>[0, 255]\<close>; sample
  \<open>i\<close> is the integer part (floor) of \<open>clamp(0, 255, x)\<close>, where \<open>x\<close> is the double that
  \<^verbatim>\<open>80 + wave1 + wave2 + noise\<close> evaluates to at \<open>i\<close> (255 for \<open>x = +\<infinity>\<close>, and 0 for
  \<open>x = -\<infinity>\<close> and for \<^verbatim>\<open>NaN\<close>).
\<close>

theorem synthetic_sample_is_truncated_clamp:
  assumes "i < 128"
  shows "length (synthetic_frame ops time random) = 128 \<and>
         unat (synthetic_frame ops time random ! i) \<le> 255 \<and>
         (case synthetic_sum ops time i (random i) of
            Fin x \<Rightarrow> int (unat (synthetic_frame ops time random ! i)) = \<lfloor>max 0 (min 255 x)\<rfloor>
          | PosInf \<Rightarrow> synthetic_frame ops time random ! i = 255
          | NegInf \<Rightarrow> synthetic_frame ops time random ! i = 0
          | NotANumber \<Rightarrow> synthetic_frame ops time random ! i = 0)"
proof -
  let ?sample = "synthetic_frame ops time random ! i"
  let ?sum = "synthetic_sum ops time i (random i)"
  have stored: "?sample = to_uint8 (js_max (Fin 0) (js_min (Fin 255) ?sum))"
    using assms by (simp add: nth_synthetic_frame synthetic_value_def)
  have "case ?sum of
          Fin x \<Rightarrow> int (unat ?sample) = \<lfloor>max 0 (min 255 x)\<rfloor>
        | PosInf \<Rightarrow> ?sample = 255
        | NegInf \<Rightarrow> ?sample = 0
        | NotANumber \<Rightarrow> ?sample = 0"
  proof (cases ?sum)
    case (Fin x)
    have "0 \<le> max 0 (min 255 x)" "max 0 (min 255 x) \<le> 255" by simp_all
    then have "uint (to_uint8 (Fin (max 0 (min 255 x)))) = \<lfloor>max 0 (min 255 x)\<rfloor>"
      by (rule uint_to_uint8)
    then have "uint ?sample = \<lfloor>max 0 (min 255 x)\<rfloor>"
      by (simp only: stored Fin clamp_finite)
    then show ?thesis by (simp add: Fin)
  next
    case PosInf
    then show ?thesis using stored by (simp only: clamp_not_finite double.case)
  next
    case NegInf
    then show ?thesis using stored by (simp only: clamp_not_finite double.case)
  next
    case NotANumber
    then show ?thesis using stored by (simp only: clamp_not_finite double.case)
  qed
  then show ?thesis
    using length_synthetic_frame [of ops time random] byte_le_255 [of ?sample] by blast
qed

theorem synthetic_sample_is_truncated_clamp_witness:
  "length (synthetic_frame exact_arithmetic (Fin 0) (constant_random (Fin (1/8)))) = 128 \<and>
   unat (synthetic_frame exact_arithmetic (Fin 0) (constant_random (Fin (1/8))) ! 0) \<le> 255 \<and>
   int (unat (synthetic_frame exact_arithmetic (Fin 0) (constant_random (Fin (1/8))) ! 0)) = 82"
proof -
  have "synthetic_sum exact_arithmetic (Fin 0) 0 (constant_random (Fin (1/8)) 0) = Fin (165 / 2)"
    by (simp add: synthetic_sum_def exact_arithmetic_def constant_random_def
          literal_0_1_def literal_0_05_def)
  then show ?thesis
    using synthetic_sample_is_truncated_clamp
      [of 0 exact_arithmetic "Fin 0" "constant_random (Fin (1/8))"]
    by simp
qed

section \<open>Properties of the bar loop\<close>

lemma length_forEach_from: "length (forEach_from dataArray index slots) = length slots"
  by (induction slots arbitrary: index) simp_all

lemma nth_forEach_from:
  "i < length slots \<Longrightarrow>
   forEach_from dataArray index slots ! i = bar_callback dataArray (index + i) (slots ! i)"
proof (induction slots arbitrary: index i)
  case Nil
  then show ?case by simp
next
  case (Cons slot slots)
  show ?case
  proof (cases i)
    case 0
    then show ?thesis by simp
  next
    case (Suc k)
    with Cons.prems have "k < length slots" by simp
    from Cons.IH [OF this, of "Suc index"] Suc show ?thesis by simp
  qed
qed

lemma nth_update_meshes:
  "i < length meshRefs \<Longrightarrow>
   update_meshes dataArray meshRefs ! i = bar_callback dataArray i (meshRefs ! i)"
  by (simp add: update_meshes_def nth_forEach_from)

lemma frequency_range:
  fixes sample :: "8 word"
  shows "0 \<le> real (unat sample) / 255 \<and> real (unat sample) / 255 \<le> 1"
proof -
  have "unat sample < 2 ^ LENGTH(8)" by (rule unsigned_less)
  then have "unat sample \<le> 255" by simp
  then have "real (unat sample) \<le> 255" by linarith
  moreover have "0 \<le> real (unat sample)" by (rule of_nat_0_le_iff)
  ultimately show ?thesis by (simp del: of_nat_unat)
qed

lemma update_mesh_scale:
  "scale_y (update_mesh len index sample m) = 0.1 + (real (unat sample) / 255) * 3"
  "scale_x (update_mesh len index sample m) = 0.5 + (real (unat sample) / 255) * 0.5"
  "scale_z (update_mesh len index sample m) = 0.5 + (real (unat sample) / 255) * 0.5"
  by (simp_all add: update_mesh_def Let_def)

text \<open>
  Claim C2: for every spectrum frame of at least 32 samples (each an integer in
  \<open>[0, 255]\<close>, by its type), after one run of the bar loop every mounted bar \<open>i\<close> in
  \<open>[0, 32)\<close> has \<open>scale.y\<close> in \<open>[0.1, 3.1]\<close> and \<open>scale.x = scale.z\<close> in \<open>[0.5, 1.0]\<close>.
\<close>

theorem bar_scales_bounded:
  assumes "32 \<le> length dataArray"
    and "length meshRefs = 32"
    and "i < 32"
    and "meshRefs ! i = Some m"
  shows "\<exists>m'. update_meshes dataArray meshRefs ! i = Some m' \<and>
           0.1 \<le> scale_y m' \<and> scale_y m' \<le> 3.1 \<and>
           scale_x m' = scale_z m' \<and> 0.5 \<le> scale_x m' \<and> scale_x m' \<le> 1.0"
proof -
  let ?s = "dataArray ! i"
  let ?m = "update_mesh (length dataArray) i ?s m"
  have "i < length dataArray" using assms(1,3) by simp
  then have "bar_callback dataArray i (Some m) = Some ?m"
    by (simp add: bar_callback_def js_index_def)
  then have res: "update_meshes dataArray meshRefs ! i = Some ?m"
    using assms(2,3,4) by (simp add: nth_update_meshes)
  have f: "0 \<le> real (unat ?s) / 255" "real (unat ?s) / 255 \<le> 1"
    using frequency_range [of ?s] by simp_all
  have "0.1 \<le> scale_y ?m" "scale_y ?m \<le> 3.1"
    "scale_x ?m = scale_z ?m" "0.5 \<le> scale_x ?m" "scale_x ?m \<le> 1.0"
    using f unfolding update_mesh_scale by linarith+
  with res show ?thesis by blast
qed

theorem bar_scales_bounded_witness:
  "\<exists>m'. update_meshes (replicate 128 255) createFrequencyBars ! 0 = Some m' \<and>
           0.1 \<le> scale_y m' \<and> scale_y m' \<le> 3.1 \<and>
           scale_x m' = scale_z m' \<and> 0.5 \<le> scale_x m' \<and> scale_x m' \<le> 1.0"
  using bar_scales_bounded [of "replicate 128 255" createFrequencyBars 0 new_bar]
  by (simp add: createFrequencyBars_def)

text \<open>
  Claim C10: for every spectrum frame shorter than 32 samples, the bar loop leaves every
  bar whose index is at least the frame's length unchanged (scale, colour, position and
  rotation); the read at such an index yields \<^verbatim>\<open>undefined\<close>, never a sample.
\<close>

theorem bars_beyond_frame_unchanged:
  assumes "length dataArray < 32"
    and "length dataArray \<le> i"
    and "i < length meshRefs"
  shows "js_index dataArray i = None \<and> update_meshes dataArray meshRefs ! i = meshRefs ! i"
proof -
  have none: "js_index dataArray i = None"
    using assms(2) by (simp add: js_index_def)
  then have "bar_callback dataArray i (meshRefs ! i) = meshRefs ! i"
    by (simp add: bar_callback_def split: option.split)
  with none assms(3) show ?thesis
    by (simp add: nth_update_meshes)
qed

theorem bars_beyond_frame_unchanged_witness:
  "js_index [7, 9 :: 8 word] 2 = None \<and>
   update_meshes [7, 9] createFrequencyBars ! 2 = Some new_bar"
  using bars_beyond_frame_unchanged [of "[7, 9]" 2 createFrequencyBars]
  by (simp add: createFrequencyBars_def)

section \<open>Properties of the token lifecycle\<close>

lemma try_refresh_Inr_iff:
  "(\<exists>refreshed. try_refresh coerce fetch later token = Inr refreshed)
     = exchange_succeeds (fetch (request_for token))"
  by (auto simp: try_refresh_def exchange_succeeds_def
           split: fetch_result.splits option.splits)







text \<open>
  Claim C5: for every token state with a present \<open>accessTokenExpires\<close> and
  \<open>now < accessTokenExpires\<close>, the check returns the token unchanged (every field) and
  sends nothing to the token endpoint.
\<close>

theorem valid_token_unchanged:
  assumes "accessTokenExpires token = Some (Num expiresAt)"
    and "int now < expiresAt"
  shows "jwt_callback coerce fetch now later token None = (token, [])"
proof -
  have "expiresAt \<noteq> 0" using assms(2) by linarith
  with assms show ?thesis by (simp add: jwt_callback_def)
qed

theorem valid_token_unchanged_witness:
  "jwt_callback no_coercion endpoint_down 999 1000 session_token None = (session_token, [])"
  using valid_token_unchanged [of session_token 1000 999 no_coercion endpoint_down 1000]
  by (simp add: session_token_def)

text \<open>
  Claim C6: for every successful refresh answer (a status in 2xx and a JSON body other
  than \<^verbatim>\<open>null\<close>), the resulting token has \<open>accessToken\<close> equal to the answer's
  \<open>access_token\<close>, \<open>accessTokenExpires\<close> equal to \<open>now + expires_in * 1000\<close> in JavaScript's
  arithmetic (\<open>now\<close> read when the answer has arrived; for a number of seconds this is the
  sum itself), and \<open>refreshToken\<close> equal to the answer's \<open>refresh_token\<close> when it has one,
  else (missing or \<^verbatim>\<open>null\<close>) the previous refresh token.
\<close>

theorem refresh_success_fields:
  assumes "fetch (request_for token) = Response response"
    and "response_ok response"
    and "body response = Some answer"
    and "answer \<noteq> JScalar JNull"
  shows "accessToken (fst (refreshAccessToken coerce fetch later token))
           = property answer ''access_token''
         \<and> accessTokenExpires (fst (refreshAccessToken coerce fetch later token))
             = Some (js_add (Num (int later))
                       (js_mul (json_to_number coerce (property answer ''expires_in'')) (Num 1000)))
         \<and> (\<forall>seconds. property answer ''expires_in'' = Some (JNumber seconds) \<longrightarrow>
               accessTokenExpires (fst (refreshAccessToken coerce fetch later token))
                 = Some (Num (int later + seconds * 1000)))
         \<and> refreshToken (fst (refreshAccessToken coerce fetch later token))
             = (if property answer ''refresh_token'' = None
                   \<or> property answer ''refresh_token'' = Some JNull
                then refreshToken token
                else property answer ''refresh_token'')
         \<and> refreshAccessToken coerce fetch later token =
             (token\<lparr> accessToken := property answer ''access_token'',
                      accessTokenExpires :=
                        Some (js_add (Num (int later))
                                (js_mul (json_to_number coerce (property answer ''expires_in''))
                                        (Num 1000))),
                      refreshToken := js_coalesce (property answer ''refresh_token'')
                                                  (refreshToken token) \<rparr>,
              [request_for token])"
proof -
  have nullish_iff: "nullish v = (v = None \<or> v = Some JNull)" for v
    by (cases v rule: nullish.cases) simp_all
  have "try_refresh coerce fetch later token =
          Inr (token\<lparr> accessToken := property answer ''access_token'',
                       accessTokenExpires :=
                         Some (js_add (Num (int later))
                                 (js_mul (json_to_number coerce (property answer ''expires_in''))
                                         (Num 1000))),
                       refreshToken := js_coalesce (property answer ''refresh_token'')
                                                   (refreshToken token) \<rparr>)"
    using assms by (simp add: try_refresh_def)
  then show ?thesis
    by (simp add: refreshAccessToken_def js_coalesce_def nullish_iff)
qed

theorem refresh_success_fields_witness:
  "refreshAccessToken no_coercion endpoint_ok 2001 session_token =
     (\<lparr> accessToken = Some (JString ''new-access''), accessTokenExpires = Some (Num 3602001),
        refreshToken = Some (JString ''refresh-1''), error = None \<rparr>,
      [\<lparr> grant_type = ''refresh_token'', sent_refresh_token = Some (JString ''refresh-1'') \<rparr>])"
  using refresh_success_fields [of endpoint_ok session_token
      "\<lparr> status = 200, body = Some fresh_answer \<rparr>" fresh_answer no_coercion 2001]
  by (simp add: endpoint_ok_def response_ok_def fresh_answer_def session_token_def
        request_for_def js_coalesce_def)

text \<open>
  Claim C9: for every input token, when the refresh exchange fails the returned token
  keeps \<open>accessToken\<close>, \<open>accessTokenExpires\<close> and \<open>refreshToken\<close> as they were; only
  \<open>error\<close> is set, to \<^verbatim>\<open>RefreshAccessTokenError\<close>.
\<close>

theorem refresh_failure_preserves_token:
  assumes "\<not> exchange_succeeds (fetch (request_for token))"
  shows "fst (refreshAccessToken coerce fetch later token)
           = token\<lparr> error := Some ''RefreshAccessTokenError'' \<rparr>
         \<and> accessToken (fst (refreshAccessToken coerce fetch later token)) = accessToken token
         \<and> accessTokenExpires (fst (refreshAccessToken coerce fetch later token))
             = accessTokenExpires token
         \<and> refreshToken (fst (refreshAccessToken coerce fetch later token)) = refreshToken token
         \<and> error (fst (refreshAccessToken coerce fetch later token))
             = Some ''RefreshAccessTokenError''"
proof (cases "try_refresh coerce fetch later token")
  case (Inl thrown)
  then show ?thesis by (simp add: refreshAccessToken_def)
next
  case (Inr refreshed)
  then have "exchange_succeeds (fetch (request_for token))"
    using try_refresh_Inr_iff [of coerce fetch later token] by auto
  with assms show ?thesis by simp
qed

theorem refresh_failure_preserves_token_witness:
  "fst (refreshAccessToken no_coercion endpoint_down 2001 session_token)
     = \<lparr> accessToken = Some (JString ''old-access''), accessTokenExpires = Some (Num 1000),
         refreshToken = Some (JString ''refresh-1''),
         error = Some ''RefreshAccessTokenError'' \<rparr>"
  using refresh_failure_preserves_token [of endpoint_down session_token no_coercion 2001]
  by (simp add: endpoint_down_def exchange_succeeds_def session_token_def)

text \<open>
  Claim C8, as stated: a sign-in sets \<open>accessTokenExpires = now + expires_in * 1000\<close>, with
  3600 seconds when the provider omits \<open>expires_in\<close>. It fails when the provider gives
  \<open>expires_in = 0\<close>: \<^verbatim>\<open>||\<close> takes 0 for a missing value, and the token is given 3600
  seconds.
\<close>

theorem sign_in_zero_lifetime:
  "expires_in zero_lifetime_account = Some (Num 0) \<and>
   accessTokenExpires
     (fst (jwt_callback no_coercion endpoint_ok 5000 5001 failed_token (Some zero_lifetime_account)))
     \<noteq> Some (Num (int 5000 + 0 * 1000))"
  by (simp add: zero_lifetime_account_def jwt_callback_def js_or_def)

text \<open>
  Claim C8, amended: on a sign-in the token records the provider's access token and
  refresh token, sets \<open>accessTokenExpires = now + expires_in * 1000\<close>, using 3600 seconds
  when the provider omits \<open>expires_in\<close> or gives it as 0 (or as \<^verbatim>\<open>NaN\<close>), and clears any
  previous error; nothing is sent to the token endpoint.
\<close>

theorem sign_in_token:
  "jwt_callback coerce fetch now later token (Some account) =
     (token\<lparr> accessToken := access_token account,
              accessTokenExpires :=
                Some (Num (int now
                   + (case expires_in account of
                        Some (Num seconds) \<Rightarrow> if seconds = 0 then 3600 else seconds
                      | Some NaN \<Rightarrow> 3600
                      | None \<Rightarrow> 3600) * 1000)),
              refreshToken := refresh_token account,
              error := None \<rparr>, [])"
  by (simp add: jwt_callback_def js_or_def split: option.split jsnum.split)

theorem sign_in_token_witness:
  "jwt_callback no_coercion endpoint_down 5000 5001 failed_token (Some fresh_tokens) =
     (\<lparr> accessToken = Some (JString ''new-access''), accessTokenExpires = Some (Num 3605000),
        refreshToken = None, error = None \<rparr>, [])"
  using sign_in_token [of no_coercion endpoint_down 5000 5001 failed_token fresh_tokens]
  by (simp add: fresh_tokens_def failed_token_def)

section \<open>Properties of the playback controller\<close>

lemma playTrack_current: "currentTrack (playTrack outcome track s) = Some track"
  by (simp add: playTrack_def start_preview_def stop_audio_def Let_def split: option.split)

text \<open>
  \<^verbatim>\<open>playTrack\<close> never reports playing for a track without a preview.
\<close>

lemma playTrack_invariant:
  "isPlaying (playTrack outcome track s) \<Longrightarrow> hasPreview (playTrack outcome track s)"
  by (auto simp: playTrack_def start_preview_def stop_audio_def hasPreview_def Let_def
        split: option.splits if_splits)

text \<open>
  Claim C1: in every reachable state, \<open>isPlaying\<close> implies that the current track has a
  preview, and \<^verbatim>\<open>togglePlayPause\<close> leaves the playback state alone when it has none.
  The code does not keep this: \<^verbatim>\<open>togglePlayPause\<close> tests the audio element only. After
  a track without preview is selected on the mounted dashboard, one call of
  \<^verbatim>\<open>togglePlayPause\<close> sets \<open>isPlaying\<close> although the current track has no preview.
\<close>

theorem toggle_plays_without_preview:
  "\<not> isPlaying (playTrack Started silent_track mounted_dashboard) \<and>
   isPlaying (togglePlayPause (playTrack Started silent_track mounted_dashboard)) \<and>
   \<not> hasPreview (togglePlayPause (playTrack Started silent_track mounted_dashboard)) \<and>
   currentTrack (togglePlayPause (playTrack Started silent_track mounted_dashboard)) = Some silent_track"
  by (simp add: playTrack_def stop_audio_def togglePlayPause_def hasPreview_def silent_track_def
        mounted_dashboard_def)

text \<open>
  Claim C7: for every track with \<open>preview_url = null\<close> and every prior state,
  \<^verbatim>\<open>playTrack\<close> records the track as the current track, sets \<open>isPlaying\<close> to false, and
  pauses the audio element (when one is mounted) and clears its source.
\<close>

theorem select_track_without_preview:
  assumes "preview_url track = None"
  shows "currentTrack (playTrack outcome track s) = Some track
         \<and> \<not> isPlaying (playTrack outcome track s)
         \<and> audioRef (playTrack outcome track s) =
             (case audioRef s of
                None \<Rightarrow> None
              | Some audio \<Rightarrow> Some (audio\<lparr> calls := calls audio @ [Pause], src := [] \<rparr>))"
  using assms by (simp add: playTrack_def stop_audio_def Let_def split: option.split)

theorem select_track_without_preview_witness:
  "isPlaying (playTrack Started preview_track mounted_dashboard) \<and>
   playTrack Started silent_track (playTrack Started preview_track mounted_dashboard) =
     \<lparr> currentTrack = Some silent_track, isPlaying = False,
       audioRef = Some \<lparr> src = [], calls = [Play, Pause] \<rparr> \<rparr>"
proof -
  have "playTrack Started preview_track mounted_dashboard =
          \<lparr> currentTrack = Some preview_track, isPlaying = True,
            audioRef = Some \<lparr> src = ''https://x/preview.mp3'', calls = [Play] \<rparr> \<rparr>"
    by (simp add: playTrack_def start_preview_def preview_track_def mounted_dashboard_def)
  then show ?thesis
    using select_track_without_preview
      [of silent_track Started "playTrack Started preview_track mounted_dashboard"]
    by (simp add: silent_track_def)
qed

end
